theory Spec2Isabelle
  imports Main
begin

section \<open>Package console: configuration and the configuration endpoint\<close>

text \<open>
  \<^verbatim>\<open>console/config.go\<close>. The type \<^verbatim>\<open>queryColumn\<close> and its constant
  \<^verbatim>\<open>queryColumnSrcAS\<close> are declared in another file of the package, so the column type
  is the type parameter \<open>'col\<close> and the constant is an argument of
  \<open>DefaultConfiguration\<close>.
\<close>

record 'col VisualizeOptionsConfiguration =
  Start :: string
  End :: string
  Filter :: string
  Dimensions :: "'col list"

record 'col console_Configuration =
  ServeLiveFS :: bool
  Version :: string
  DefaultVisualizeOptions :: "'col VisualizeOptionsConfiguration"

text \<open>
  The composite literal names \<^verbatim>\<open>DefaultVisualizeOptions\<close> only: \<^verbatim>\<open>ServeLiveFS\<close> and
  \<^verbatim>\<open>Version\<close> keep Go's zero values, \<open>False\<close> and the empty string.
\<close>

definition DefaultConfiguration :: "'col \<Rightarrow> 'col console_Configuration" where
  "DefaultConfiguration queryColumnSrcAS =
     \<lparr>ServeLiveFS = False,
      Version = [],
      DefaultVisualizeOptions =
        \<lparr>Start = ''6 hours ago'',
         End = ''now'',
         Filter = ''InIfBoundary = external'',
         Dimensions = [queryColumnSrcAS]\<rparr>\<rparr>"

text \<open>
  The console component, as far as the handler reads it: its configuration.
\<close>

record 'col console_Component =
  config :: "'col console_Configuration"

text \<open>
  \<^verbatim>\<open>gin.H\<close> is \<^verbatim>\<open>map[string]interface{}\<close>: a finite map from keys to values of any
  type. The handler stores a string and a \<^verbatim>\<open>VisualizeOptionsConfiguration\<close> in it.
\<close>

datatype 'col gin_value =
  HString string
| HVisualizeOptions "'col VisualizeOptionsConfiguration"

type_synonym 'col gin_H = "string \<rightharpoonup> 'col gin_value"

text \<open>
  What a handler has written to its \<^verbatim>\<open>gin.Context\<close>: nothing yet, or a status code
  with the object that \<^verbatim>\<open>gc.JSON\<close> renders as the JSON body.
\<close>

record 'col gin_Context =
  written :: "(nat \<times> 'col gin_H) option"

definition StatusOK :: nat where
  "StatusOK = 200"

definition gin_JSON :: "nat \<Rightarrow> 'col gin_H \<Rightarrow> 'col gin_Context \<Rightarrow> 'col gin_Context" where
  "gin_JSON code obj gc = gc\<lparr>written := Some (code, obj)\<rparr>"

definition configHandlerFunc ::
  "'col console_Component \<Rightarrow> 'col gin_Context \<Rightarrow> 'col gin_Context" where
  "configHandlerFunc c gc =
     gin_JSON StatusOK
       [''version'' \<mapsto> HString (Version (config c)),
        ''defaultVisualizeOptions'' \<mapsto> HVisualizeOptions (DefaultVisualizeOptions (config c))]
       gc"

section \<open>Package flow: the test helpers\<close>

subsection \<open>Go channels\<close>

text \<open>
  \<^verbatim>\<open>outgoingFlows\<close> is a Go channel of message pointers. A channel is a first-in
  first-out queue: \<open>pending\<close> holds the values that have been sent and not yet received,
  oldest first (the buffered values, then the value of each sender still waiting in its send
  statement). Whether a send returns at once or waits for the receiver depends on the buffer
  size given where the channel is made, which does not change the order of delivery. A send
  on a closed channel panics. A receive takes the oldest pending value; with nothing pending
  it yields the zero value and \<open>ok = false\<close> on a closed channel (here \<open>None\<close> as the value)
  and waits on an open one (here no result at all).
\<close>

record 'a chan =
  pending :: "'a list"
  closed :: bool

datatype panic = SendOnClosedChannel

definition chan_send :: "'a chan \<Rightarrow> 'a \<Rightarrow> panic + 'a chan" where
  "chan_send ch v =
     (if closed ch then Inl SendOnClosedChannel
      else Inr (ch\<lparr>pending := pending ch @ [v]\<rparr>))"

definition chan_recv :: "'a chan \<Rightarrow> ('a option \<times> 'a chan) option" where
  "chan_recv ch =
     (case pending ch of
        v # vs \<Rightarrow> Some (Some v, ch\<lparr>pending := vs\<rparr>)
      | [] \<Rightarrow> if closed ch then Some (None, ch) else None)"

subsection \<open>Inject\<close>

text \<open>
  The flow component, as far as \<^verbatim>\<open>Inject\<close> touches it: the channel of outgoing flows.
  The struct's other fields are the record's extension, so every statement below holds for
  the full component. \<^verbatim>\<open>Message\<close> is declared outside these files and \<^verbatim>\<open>Inject\<close>
  never looks inside it: it is the type parameter \<open>'msg\<close>.
\<close>

record 'msg flow_Component =
  outgoingFlows :: "'msg chan"

text \<open>
  \<^verbatim>\<open>func (c *Component) Inject(t *testing.T, fmsg *Message) { c.outgoingFlows <- fmsg }\<close>
  The argument \<open>t\<close> is not used.
\<close>

definition Inject ::
  "('msg, 'z) flow_Component_scheme \<Rightarrow> 't \<Rightarrow> 'msg \<Rightarrow> panic + ('msg, 'z) flow_Component_scheme" where
  "Inject c t fmsg =
     (case chan_send (outgoingFlows c) fmsg of
        Inl p \<Rightarrow> Inl p
      | Inr ch \<Rightarrow> Inr (c\<lparr>outgoingFlows := ch\<rparr>))"

text \<open>
  The consumer reads the outgoing flows with a channel receive. \<open>receive_flows n\<close> is
  \<open>n\<close> receives in a row, each yielding a message: it has no result if one of them
  would wait or finds the channel closed and empty.
\<close>

definition receive_flow ::
  "('msg, 'z) flow_Component_scheme \<Rightarrow> ('msg option \<times> ('msg, 'z) flow_Component_scheme) option" where
  "receive_flow c =
     (case chan_recv (outgoingFlows c) of
        None \<Rightarrow> None
      | Some (v, ch) \<Rightarrow> Some (v, c\<lparr>outgoingFlows := ch\<rparr>))"

fun receive_flows ::
  "nat \<Rightarrow> ('msg, 'z) flow_Component_scheme \<Rightarrow> ('msg list \<times> ('msg, 'z) flow_Component_scheme) option" where
  "receive_flows 0 c = Some ([], c)"
| "receive_flows (Suc n) c =
     (case receive_flow c of
        Some (Some m, c') \<Rightarrow>
          (case receive_flows n c' of
             Some (ms, c'') \<Rightarrow> Some (m # ms, c'')
           | None \<Rightarrow> None)
      | _ \<Rightarrow> None)"

subsection \<open>NewMock\<close>

text \<open>
  \<^verbatim>\<open>udp.Configuration\<close> with the two fields the literal in \<^verbatim>\<open>NewMock\<close> sets. The
  \<^verbatim>\<open>Config\<close> field of an input holds any input configuration; \<open>'o\<close> stands for the
  kinds other than UDP.
\<close>

record udp_Configuration =
  Listen :: string
  QueueSize :: nat

datatype 'o input_Configuration =
  UDP udp_Configuration
| OtherInput 'o

record 'o InputConfiguration =
  Decoder :: string
  Config :: "'o input_Configuration"

text \<open>
  \<^verbatim>\<open>Inputs\<close> is a slice: \<open>None\<close> is the nil slice, \<open>Some []\<close> an empty slice that is
  not nil. The configuration's other fields are the record's extension.
\<close>

record 'o flow_Configuration =
  Inputs :: "'o InputConfiguration list option"

text \<open>
  \<^verbatim>\<open>t.Fatalf\<close> fails the test and stops the calling goroutine: the helper returns no
  component. The value keeps the format string and the error it was called with.
\<close>

datatype 'e test_failure = Fatalf string 'e

text \<open>
  \<^verbatim>\<open>New\<close> and \<^verbatim>\<open>Start\<close> are defined in another file of the package: they are the
  arguments \<open>flow_New\<close> and \<open>component_Start\<close>. \<^verbatim>\<open>Start\<close> is a method on the
  component's pointer, so it returns its error together with the component as it has left
  it. \<open>deps\<close> is the \<^verbatim>\<open>Dependencies\<close> value built from the daemon and HTTP mocks.
\<close>

definition NewMock ::
  "('r \<Rightarrow> ('o, 'z) flow_Configuration_scheme \<Rightarrow> 'd \<Rightarrow> 'e + 'c) \<Rightarrow> ('c \<Rightarrow> 'e option \<times> 'c)
   \<Rightarrow> 'r \<Rightarrow> 'd \<Rightarrow> ('o, 'z) flow_Configuration_scheme \<Rightarrow> 'e test_failure + 'c" where
  "NewMock flow_New component_Start r deps cfg0 =
     (let cfg =
        (if Inputs cfg0 = None
         then cfg0\<lparr>Inputs := Some
                [\<lparr>Decoder = ''netflow'',
                  Config = UDP \<lparr>Listen = ''127.0.0.1:0'', QueueSize = 10\<rparr>\<rparr>]\<rparr>
         else cfg0)
      in case flow_New r cfg deps of
           Inl err \<Rightarrow> Inl (Fatalf (''New() error:'' @ [CHR 0x0A] @ ''%+v'') err)
         | Inr c \<Rightarrow>
             (case component_Start c of
                (Some err, c') \<Rightarrow> Inl (Fatalf (''Start() error:'' @ [CHR 0x0A] @ ''%+v'') err)
              | (None, c') \<Rightarrow> Inr c'))"

section \<open>The listener's intake queue\<close>

text \<open>
  Modelled from the spec: the listener's receive path, whose code is not among the source
  files. Section 4.3: each received datagram is pushed to the input's intake queue, of
  bounded capacity; if the queue is full, the datagram is dropped at once, without waiting,
  and the dropped counter goes up by one. Nothing leaves the queue here: the decode workers
  are the only readers, and they are paused.
\<close>

record 'd Listener =
  intake :: "'d list"
  capacity :: nat
  dropped :: nat

datatype outcome = Accepted | Dropped

text \<open>
  Modelled from the spec: one received datagram (section 4.3). The step always returns:
  it has no waiting branch.
\<close>

definition on_datagram :: "'d \<Rightarrow> 'd Listener \<Rightarrow> outcome \<times> 'd Listener" where
  "on_datagram d l =
     (if length (intake l) < capacity l
      then (Accepted, l\<lparr>intake := intake l @ [d]\<rparr>)
      else (Dropped, l\<lparr>dropped := dropped l + 1\<rparr>))"

text \<open>
  Modelled from the spec: the datagrams of a list received one after the other, with the
  outcome of each.
\<close>

fun on_datagrams :: "'d list \<Rightarrow> 'd Listener \<Rightarrow> outcome list \<times> 'd Listener" where
  "on_datagrams [] l = ([], l)"
| "on_datagrams (d # ds) l =
     (case on_datagram d l of
        (o1, l1) \<Rightarrow> (case on_datagrams ds l1 of (os, l2) \<Rightarrow> (o1 # os, l2)))"

section \<open>Theorems\<close>

subsection \<open>Inject\<close>

text \<open>
  A send on a closed channel panics, so \<open>Inject\<close> delivers nothing once the channel of
  outgoing flows has been closed.
\<close>

lemma Inject_closed_panics:
  "closed (outgoingFlows c) \<Longrightarrow> Inject c t fmsg = Inl SendOnClosedChannel"
  by (simp add: Inject_def chan_send_def)

text \<open>
  Receiving as many flows as the front part of the pending queue holds yields exactly that
  front part, in order, and leaves the rest pending.
\<close>

lemma receive_flows_prefix:
  "pending (outgoingFlows c) = q @ r \<Longrightarrow>
   receive_flows (length q) c = Some (q, c\<lparr>outgoingFlows := (outgoingFlows c)\<lparr>pending := r\<rparr>\<rparr>)"
proof (induction q arbitrary: c)
  case Nil
  then show ?case by simp
next
  case (Cons m q)
  let ?c1 = "c\<lparr>outgoingFlows := (outgoingFlows c)\<lparr>pending := q @ r\<rparr>\<rparr>"
  have step: "receive_flow c = Some (Some m, ?c1)"
    using Cons.prems by (simp add: receive_flow_def chan_recv_def)
  have "pending (outgoingFlows ?c1) = q @ r" by simp
  from Cons.IH [OF this] show ?case
    using step by simp
qed

text \<open>
  C1. While the pipeline is started (the channel of outgoing flows is open), \<open>Inject\<close>
  returns normally and the injected message becomes the next item of the outgoing sequence:
  it is appended behind the flows already pending, which stay as they were, and no other
  field of the component changes. The consumer then receives the flows that were pending
  before the injection and, directly after them, the injected message itself, unmodified,
  with nothing in between. When nothing was pending, the very next receive yields the
  message and leaves the component as it was before the injection.
\<close>

theorem Inject_is_next_outgoing_flow:
  assumes "\<not> closed (outgoingFlows c)"
  shows "\<exists>c'. Inject c t fmsg = Inr c'
           \<and> pending (outgoingFlows c') = pending (outgoingFlows c) @ [fmsg]
           \<and> \<not> closed (outgoingFlows c')
           \<and> flow_Component.more c' = flow_Component.more c
           \<and> (\<exists>c''. receive_flows (length (pending (outgoingFlows c))) c'
                       = Some (pending (outgoingFlows c), c'')
                  \<and> receive_flow c''
                       = Some (Some fmsg, c\<lparr>outgoingFlows := (outgoingFlows c)\<lparr>pending := []\<rparr>\<rparr>))
           \<and> (pending (outgoingFlows c) = [] \<longrightarrow> receive_flow c' = Some (Some fmsg, c))"
proof -
  let ?q = "pending (outgoingFlows c)"
  let ?c' = "c\<lparr>outgoingFlows := (outgoingFlows c)\<lparr>pending := ?q @ [fmsg]\<rparr>\<rparr>"
  have inj: "Inject c t fmsg = Inr ?c'"
    using assms by (simp add: Inject_def chan_send_def)
  have "pending (outgoingFlows ?c') = ?q @ [fmsg]" by simp
  from receive_flows_prefix [OF this]
  have drain: "receive_flows (length ?q) ?c'
                 = Some (?q, c\<lparr>outgoingFlows := (outgoingFlows c)\<lparr>pending := [fmsg]\<rparr>\<rparr>)"
    by simp
  have nxt: "receive_flow (c\<lparr>outgoingFlows := (outgoingFlows c)\<lparr>pending := [fmsg]\<rparr>\<rparr>)
               = Some (Some fmsg, c\<lparr>outgoingFlows := (outgoingFlows c)\<lparr>pending := []\<rparr>\<rparr>)"
    by (simp add: receive_flow_def chan_recv_def)
  have empty: "?q = [] \<longrightarrow> receive_flow ?c' = Some (Some fmsg, c)"
    by (simp add: receive_flow_def chan_recv_def)
  show ?thesis
    using inj drain nxt empty assms by simp
qed

theorem Inject_is_next_outgoing_flow_witness:
  "\<not> closed (outgoingFlows \<lparr>outgoingFlows = \<lparr>pending = [1::nat, 2], closed = False\<rparr>\<rparr>)
   \<and> Inject \<lparr>outgoingFlows = \<lparr>pending = [1::nat, 2], closed = False\<rparr>\<rparr> () 3
       = Inr \<lparr>outgoingFlows = \<lparr>pending = [1, 2, 3], closed = False\<rparr>\<rparr>
   \<and> receive_flows 2 \<lparr>outgoingFlows = \<lparr>pending = [1::nat, 2, 3], closed = False\<rparr>\<rparr>
       = Some ([1, 2], \<lparr>outgoingFlows = \<lparr>pending = [3], closed = False\<rparr>\<rparr>)
   \<and> receive_flow \<lparr>outgoingFlows = \<lparr>pending = [3::nat], closed = False\<rparr>\<rparr>
       = Some (Some 3, \<lparr>outgoingFlows = \<lparr>pending = [], closed = False\<rparr>\<rparr>)"
  using Inject_is_next_outgoing_flow
    [of "\<lparr>outgoingFlows = \<lparr>pending = [1::nat, 2], closed = False\<rparr>\<rparr>" "()" 3]
  by (simp add: Inject_def chan_send_def receive_flow_def chan_recv_def numeral_2_eq_2)

subsection \<open>NewMock\<close>

text \<open>
  C9. \<open>NewMock\<close> builds the component from the configuration \<open>cfg'\<close>: the given one with
  its inputs replaced by the single default input (decoder \<open>netflow\<close>, listening on
  \<open>127.0.0.1:0\<close>, queue size 10) when the inputs are nil, and the given one itself when
  they are not nil, an empty list included; so \<open>cfg'\<close> differs from the given
  configuration exactly when its inputs are nil. \<open>NewMock\<close> returns a component exactly
  when \<open>New\<close> succeeds on \<open>cfg'\<close> and \<open>Start\<close> succeeds on the component \<open>New\<close> made,
  and what it returns is that component as \<open>Start\<close> left it; an error of \<open>New\<close> or of
  \<open>Start\<close> fails the test with that error.
\<close>

theorem NewMock_default_inputs_then_started:
  fixes cfg :: "('o, 'z) flow_Configuration_scheme"
  shows
  "\<exists>cfg'. cfg' = (case Inputs cfg of
                    None \<Rightarrow> cfg\<lparr>Inputs := Some
                      [\<lparr>Decoder = ''netflow'',
                        Config = UDP \<lparr>Listen = ''127.0.0.1:0'', QueueSize = 10\<rparr>\<rparr>]\<rparr>
                  | Some inputs \<Rightarrow> cfg)
     \<and> (cfg' = cfg \<longleftrightarrow> Inputs cfg \<noteq> None)
     \<and> (\<forall>c. NewMock flow_New component_Start r deps cfg = Inr c
            \<longleftrightarrow> (\<exists>c0. flow_New r cfg' deps = Inr c0 \<and> component_Start c0 = (None, c)))
     \<and> (\<forall>err. flow_New r cfg' deps = Inl err
            \<longrightarrow> (\<exists>fmt. NewMock flow_New component_Start r deps cfg = Inl (Fatalf fmt err)))
     \<and> (\<forall>c0 err c1. flow_New r cfg' deps = Inr c0 \<and> component_Start c0 = (Some err, c1)
            \<longrightarrow> (\<exists>fmt. NewMock flow_New component_Start r deps cfg = Inl (Fatalf fmt err)))"
proof (cases "Inputs cfg")
  case None
  let ?cfg' = "cfg\<lparr>Inputs := Some
                      [\<lparr>Decoder = ''netflow'',
                        Config = UDP \<lparr>Listen = ''127.0.0.1:0'', QueueSize = 10\<rparr>\<rparr>]\<rparr>"
  have ne: "?cfg' \<noteq> cfg"
  proof
    assume "?cfg' = cfg"
    then have "Inputs ?cfg' = Inputs cfg" by simp
    then show False using None by simp
  qed
  show ?thesis
    using None ne
    by (auto simp: NewMock_def Let_def split: sum.splits prod.splits option.splits)
next
  case (Some inputs)
  then show ?thesis
    by (auto simp: NewMock_def Let_def split: sum.splits prod.splits option.splits)
qed

theorem NewMock_default_inputs_then_started_witness:
  "NewMock
     (\<lambda>r cfg deps. (Inr (Inputs cfg, False) :: string + unit InputConfiguration list option \<times> bool))
     (\<lambda>c. (None, (fst c, True))) () () \<lparr>Inputs = None\<rparr>
   = Inr (Some [\<lparr>Decoder = ''netflow'',
                 Config = UDP \<lparr>Listen = ''127.0.0.1:0'', QueueSize = 10\<rparr>\<rparr>], True)
   \<and> NewMock
     (\<lambda>r cfg deps. (Inr (Inputs cfg, False) :: string + unit InputConfiguration list option \<times> bool))
     (\<lambda>c. (None, (fst c, True))) () () \<lparr>Inputs = Some []\<rparr>
   = Inr (Some [], True)"
  using NewMock_default_inputs_then_started
    [where cfg = "\<lparr>Inputs = None\<rparr> :: unit flow_Configuration"
       and flow_New = "\<lambda>r cfg deps. (Inr (Inputs cfg, False)
                          :: string + unit InputConfiguration list option \<times> bool)"
       and component_Start = "\<lambda>c. (None, (fst c, True))" and r = "()" and deps = "()"]
  by (simp add: NewMock_def)

subsection \<open>The intake queue\<close>

text \<open>
  A listener whose queue holds no more than its capacity accepts datagrams while there is
  room and drops every later one: the outcomes, the queue and the counter after any list
  of datagrams.
\<close>

lemma on_datagrams_room:
  "length (intake l) \<le> capacity l \<Longrightarrow>
   on_datagrams ds l =
     (replicate (min (length ds) (capacity l - length (intake l))) Accepted
        @ replicate (length ds - (capacity l - length (intake l))) Dropped,
      l\<lparr>intake := intake l @ take (capacity l - length (intake l)) ds,
        dropped := dropped l + (length ds - (capacity l - length (intake l)))\<rparr>)"
proof (induction ds arbitrary: l)
  case Nil
  then show ?case by simp
next
  case (Cons d ds)
  show ?case
  proof (cases "length (intake l) < capacity l")
    case True
    then obtain k where k: "capacity l - length (intake l) = Suc k"
      by (metis Suc_diff_Suc)
    let ?l1 = "l\<lparr>intake := intake l @ [d]\<rparr>"
    have s: "on_datagram d l = (Accepted, ?l1)"
      using True by (simp add: on_datagram_def)
    have k1: "capacity ?l1 - length (intake ?l1) = k"
      using k by simp
    have "length (intake ?l1) \<le> capacity ?l1"
      using True by simp
    from Cons.IH [OF this] have
      "on_datagrams ds ?l1 =
         (replicate (min (length ds) k) Accepted @ replicate (length ds - k) Dropped,
          ?l1\<lparr>intake := intake ?l1 @ take k ds, dropped := dropped ?l1 + (length ds - k)\<rparr>)"
      unfolding k1 .
    then show ?thesis
      unfolding k using s by simp
  next
    case False
    then have z: "capacity l - length (intake l) = 0"
      by simp
    let ?l1 = "l\<lparr>dropped := dropped l + 1\<rparr>"
    have s: "on_datagram d l = (Dropped, ?l1)"
      using False by (simp add: on_datagram_def)
    have z1: "capacity ?l1 - length (intake ?l1) = 0"
      using z by simp
    have "length (intake ?l1) \<le> capacity ?l1"
      using Cons.prems by simp
    from Cons.IH [OF this] have
      "on_datagrams ds ?l1 =
         (replicate (min (length ds) 0) Accepted @ replicate (length ds - 0) Dropped,
          ?l1\<lparr>intake := intake ?l1 @ take 0 ds, dropped := dropped ?l1 + (length ds - 0)\<rparr>)"
      unfolding z1 .
    then show ?thesis
      unfolding z using s by simp
  qed
qed

text \<open>
  C3. An intake queue of capacity \<open>N\<close> that starts empty and is not read (the decode
  workers are paused) receives \<open>N + 1\<close> datagrams: the first \<open>N\<close> are accepted and are
  the queue's content, in order; the last one is dropped at once, the step returning
  without waiting; the dropped counter has gone up by exactly one.
\<close>

theorem intake_full_drops_exactly_one:
  assumes "intake l = []" and "length ds = capacity l + 1"
  shows "fst (on_datagrams ds l) = replicate (capacity l) Accepted @ [Dropped]
         \<and> intake (snd (on_datagrams ds l)) = take (capacity l) ds
         \<and> dropped (snd (on_datagrams ds l)) = dropped l + 1
         \<and> capacity (snd (on_datagrams ds l)) = capacity l"
proof -
  have "length (intake l) \<le> capacity l"
    using assms(1) by simp
  from on_datagrams_room [OF this, of ds] show ?thesis
    using assms by simp
qed

theorem intake_full_drops_exactly_one_witness:
  "intake \<lparr>intake = ([] :: nat list), capacity = 2, dropped = 0\<rparr> = []
   \<and> length [10, 20, 30 :: nat] = capacity \<lparr>intake = ([] :: nat list), capacity = 2, dropped = 0\<rparr> + 1
   \<and> on_datagrams [10, 20, 30 :: nat] \<lparr>intake = [], capacity = 2, dropped = 0\<rparr>
       = ([Accepted, Accepted, Dropped], \<lparr>intake = [10, 20], capacity = 2, dropped = 1\<rparr>)"
  using intake_full_drops_exactly_one
    [of "\<lparr>intake = ([] :: nat list), capacity = 2, dropped = 0\<rparr>" "[10, 20, 30]"]
  by (simp add: on_datagram_def)


subsection \<open>The console configuration\<close>

text \<open>
  C10. \<open>DefaultConfiguration\<close> returns the visualize defaults: start \<open>6 hours ago\<close>, end
  \<open>now\<close>, filter \<open>InIfBoundary = external\<close> and exactly one dimension, the source AS
  column. For every component and every context, the configuration handler answers with
  status 200 and an object whose keys are exactly \<open>version\<close> and
  \<open>defaultVisualizeOptions\<close>, each bound to the configured value, unchanged.
\<close>

theorem console_config_defaults_and_endpoint:
  "Start (DefaultVisualizeOptions (DefaultConfiguration srcAS)) = ''6 hours ago''
   \<and> End (DefaultVisualizeOptions (DefaultConfiguration srcAS)) = ''now''
   \<and> Filter (DefaultVisualizeOptions (DefaultConfiguration srcAS)) = ''InIfBoundary = external''
   \<and> Dimensions (DefaultVisualizeOptions (DefaultConfiguration srcAS)) = [srcAS]
   \<and> (\<exists>obj. written (configHandlerFunc c gc) = Some (200, obj)
        \<and> dom obj = {''version'', ''defaultVisualizeOptions''}
        \<and> obj ''version'' = Some (HString (Version (config c)))
        \<and> obj ''defaultVisualizeOptions''
            = Some (HVisualizeOptions (DefaultVisualizeOptions (config c))))"
  by (auto simp: DefaultConfiguration_def configHandlerFunc_def gin_JSON_def StatusOK_def)

theorem console_config_defaults_and_endpoint_witness:
  "Dimensions (DefaultVisualizeOptions (DefaultConfiguration (0::nat))) = [0]
   \<and> (\<exists>obj. written (configHandlerFunc
                 \<lparr>config = (DefaultConfiguration (0::nat))\<lparr>Version := ''v1''\<rparr>\<rparr>
                 \<lparr>written = None\<rparr>) = Some (200, obj)
        \<and> dom obj = {''version'', ''defaultVisualizeOptions''}
        \<and> obj ''version'' = Some (HString ''v1''))"
  using console_config_defaults_and_endpoint
    [of "0::nat" "\<lparr>config = (DefaultConfiguration (0::nat))\<lparr>Version := ''v1''\<rparr>\<rparr>"
        "\<lparr>written = None\<rparr>"]
  by auto

end
